theory Spec2Isabelle
  imports Complex_Main "HOL-Library.List_Lexorder" "HOL-Library.Product_Lexorder"
begin

section \<open>Python values used by the keyword analysis application\<close>

text \<open>
  A Python \<open>str\<close> is a sequence of Unicode code points; it is modelled as a list of
  natural numbers, so that the Japanese labels of \<open>app.py\<close> keep their length and
  their order. \<open>ascii\<close> writes a pure ASCII literal. Lists are ordered
  lexicographically, as Python compares strings.
\<close>

type_synonym pystr = "nat list"

definition ascii :: "string \<Rightarrow> pystr" where
  "ascii s = map of_char s"

text \<open>\<open>str.lower\<close> on the letters A to Z. Code points outside ASCII are left as they
  are: the tables below hold ASCII, kana and kanji only, and those have no case.\<close>

definition lower_cp :: "nat \<Rightarrow> nat" where
  "lower_cp c = (if 65 \<le> c \<and> c \<le> 90 then c + 32 else c)"

definition lower :: "pystr \<Rightarrow> pystr" where
  "lower s = map lower_cp s"

text \<open>\<open>a in b\<close> on strings: \<open>a\<close> occurs in \<open>b\<close> as a contiguous block.\<close>

fun is_prefix :: "pystr \<Rightarrow> pystr \<Rightarrow> bool" where
  "is_prefix [] ys = True"
| "is_prefix (x # xs) [] = False"
| "is_prefix (x # xs) (y # ys) = (x = y \<and> is_prefix xs ys)"

fun str_in :: "pystr \<Rightarrow> pystr \<Rightarrow> bool" where
  "str_in a [] = (a = [])"
| "str_in a (y # ys) = (is_prefix a (y # ys) \<or> str_in a ys)"

text \<open>\<open>s.replace(c, '')\<close> for a one-character \<open>c\<close>.\<close>

definition str_remove :: "nat \<Rightarrow> pystr \<Rightarrow> pystr" where
  "str_remove c s = filter (\<lambda>d. d \<noteq> c) s"

text \<open>\<open>str.isspace\<close> of one code point, and \<open>str.strip()\<close>.\<close>

definition is_space :: "nat \<Rightarrow> bool" where
  "is_space c = ((9 \<le> c \<and> c \<le> 13) \<or> (28 \<le> c \<and> c \<le> 32) \<or> c = 0x85 \<or> c = 0xA0
     \<or> c = 0x1680 \<or> (0x2000 \<le> c \<and> c \<le> 0x200A) \<or> c = 0x2028 \<or> c = 0x2029
     \<or> c = 0x202F \<or> c = 0x205F \<or> c = 0x3000)"

definition strip :: "pystr \<Rightarrow> pystr" where
  "strip s = rev (dropWhile is_space (rev (dropWhile is_space s)))"

datatype py_error = ValueError | TypeError | KeyError

subsection \<open>Keyword cells\<close>

text \<open>
  A cell of the Keyword column is \<open>None\<close>, a text or a whole number. \<open>py_str\<close> is
  Python's \<open>str(kw)\<close>. (A blank spreadsheet cell read as a float NaN is outside this
  model.)
\<close>

datatype keyword = KNone | KStr pystr | KInt int

fun digits :: "nat \<Rightarrow> pystr" where
  "digits n = (if n < 10 then [48 + n] else digits (n div 10) @ [48 + n mod 10])"

declare digits.simps [simp del]

fun py_str :: "keyword \<Rightarrow> pystr" where
  "py_str KNone = ascii ''None''"
| "py_str (KStr s) = s"
| "py_str (KInt n) = (if n < 0 then 45 # digits (nat (- n)) else digits (nat n))"

text \<open>The test \<open>kw is not None and str(kw).strip() != ''\<close>.\<close>

definition valid_keyword :: "keyword \<Rightarrow> bool" where
  "valid_keyword kw = (kw \<noteq> KNone \<and> strip (py_str kw) \<noteq> [])"

text \<open>\<open>Series.unique()\<close>: the distinct values in order of first appearance.\<close>

definition unique :: "'a list \<Rightarrow> 'a list" where
  "unique xs = rev (remdups (rev xs))"

subsection \<open>Floating point cells\<close>

text \<open>
  A numeric cell is a float: a finite value, one of the two infinities, or NaN, the
  marker pandas uses for a missing or undefined value. Finite values are exact
  rationals here (rounding error and signed zero are not modelled); the special values
  follow IEEE 754 as numpy applies it to a Series (no operation raises).
\<close>

datatype fl = Fin rat | PInf | NInf | NaN

fun fadd :: "fl \<Rightarrow> fl \<Rightarrow> fl" where
  "fadd (Fin a) (Fin b) = Fin (a + b)"
| "fadd NaN y = NaN"
| "fadd x NaN = NaN"
| "fadd PInf NInf = NaN"
| "fadd NInf PInf = NaN"
| "fadd PInf y = PInf"
| "fadd x PInf = PInf"
| "fadd NInf y = NInf"
| "fadd x NInf = NInf"

fun fneg :: "fl \<Rightarrow> fl" where
  "fneg (Fin a) = Fin (- a)"
| "fneg PInf = NInf"
| "fneg NInf = PInf"
| "fneg NaN = NaN"

fun fsign :: "fl \<Rightarrow> int" where
  "fsign (Fin a) = (if a < 0 then -1 else if a = 0 then 0 else 1)"
| "fsign PInf = 1"
| "fsign NInf = -1"
| "fsign NaN = 0"

fun fmul :: "fl \<Rightarrow> fl \<Rightarrow> fl" where
  "fmul (Fin a) (Fin b) = Fin (a * b)"
| "fmul NaN y = NaN"
| "fmul x NaN = NaN"
| "fmul x y = (if fsign x * fsign y = 0 then NaN else if fsign x * fsign y < 0 then NInf else PInf)"

fun fdiv :: "fl \<Rightarrow> fl \<Rightarrow> fl" where
  "fdiv NaN y = NaN"
| "fdiv x NaN = NaN"
| "fdiv (Fin a) (Fin b) =
     (if b = 0 then (if a = 0 then NaN else if a < 0 then NInf else PInf) else Fin (a / b))"
| "fdiv (Fin a) y = Fin 0"
| "fdiv x (Fin b) = (if fsign x * (if b < 0 then -1 else 1) < 0 then NInf else PInf)"
| "fdiv x y = NaN"

text \<open>\<open>x <= y\<close>: false as soon as one side is NaN.\<close>

fun fle :: "fl \<Rightarrow> fl \<Rightarrow> bool" where
  "fle NaN y = False"
| "fle x NaN = False"
| "fle (Fin a) (Fin b) = (a \<le> b)"
| "fle NInf y = True"
| "fle x PInf = True"
| "fle x y = False"

text \<open>\<open>Series.round(d)\<close>: scale, round half to even, scale back.\<close>

definition rint :: "rat \<Rightarrow> int" where
  "rint x = (let f = \<lfloor>x\<rfloor>; r = x - of_int f
             in if r < 1 / 2 then f else if 1 / 2 < r then f + 1
                else if even f then f else f + 1)"

fun fround :: "nat \<Rightarrow> fl \<Rightarrow> fl" where
  "fround d (Fin a) = Fin (of_int (rint (a * 10 ^ d)) / 10 ^ d)"
| "fround d x = x"

text \<open>\<open>Series.sum()\<close> skips NaN; \<open>Series.cumsum()\<close> leaves NaN in place and carries
  the running total past it.\<close>

definition nansum :: "fl list \<Rightarrow> fl" where
  "nansum xs = foldl fadd (Fin 0) (filter (\<lambda>x. x \<noteq> NaN) xs)"

fun cumsum_from :: "fl \<Rightarrow> fl list \<Rightarrow> fl list" where
  "cumsum_from acc [] = []"
| "cumsum_from acc (x # xs) =
     (if x = NaN then NaN # cumsum_from acc xs
      else fadd acc x # cumsum_from (fadd acc x) xs)"

definition cumsum :: "fl list \<Rightarrow> fl list" where
  "cumsum xs = cumsum_from (Fin 0) xs"

text \<open>\<open>df.replace([inf, -inf], nan)\<close> on one cell.\<close>

fun replace_inf :: "fl \<Rightarrow> fl" where
  "replace_inf PInf = NaN"
| "replace_inf NInf = NaN"
| "replace_inf x = x"

section \<open>Batch Classifier: partition into batches\<close>

text \<open>\<open>range(0, n, step)\<close> for a positive step, and the slice \<open>xs[i:j]\<close>.\<close>

definition range_step :: "nat \<Rightarrow> nat \<Rightarrow> nat list" where
  "range_step n step = map (\<lambda>j. j * step) [0 ..< (n + step - 1) div step]"

definition slice :: "'a list \<Rightarrow> nat \<Rightarrow> nat \<Rightarrow> 'a list" where
  "slice xs i j = take (j - i) (drop i xs)"

text \<open>
  Lines 807 and 808 of \<open>app.py\<close>. \<open>range\<close> raises ValueError on a zero step and is
  empty on a negative one.
\<close>

definition make_batches :: "int \<Rightarrow> 'a list \<Rightarrow> py_error + 'a list list" where
  "make_batches max_keywords_per_batch unique_keywords =
     (let batch_size = min max_keywords_per_batch 100
      in if batch_size = 0 then Inl ValueError
         else if batch_size < 0 then Inr []
         else Inr (map (\<lambda>i. slice unique_keywords i (i + nat batch_size))
                     (range_step (length unique_keywords) (nat batch_size))))"

section \<open>Metric Deriver\<close>

text \<open>
  A raw numeric cell of the mapped sheet is a number or a text. A column has dtype
  \<open>object\<close> when it holds a text. \<open>pandas.to_numeric(errors='coerce')\<close> is a library
  function and is a parameter \<open>to_numeric\<close> of the model: it returns NaN where it cannot
  parse. A number in an object column goes through \<open>astype(str)\<close> and back, which gives
  the same number.
\<close>

datatype cell = CellNum fl | CellStr pystr

record raw_row =
  raw_Keyword :: keyword
  raw_MatchType :: "pystr option"
  raw_Impressions :: cell
  raw_Clicks :: cell
  raw_Cost :: cell
  raw_Conversions :: cell

record nrow =
  Keyword :: keyword
  MatchType :: "pystr option"
  Impressions :: fl
  Clicks :: fl
  Cost :: fl
  Conversions :: fl

record row = nrow +
  CTR :: fl
  CVR :: fl
  CPC :: fl
  CPA :: fl
  CPM :: fl

fun is_text :: "cell \<Rightarrow> bool" where
  "is_text (CellStr s) = True"
| "is_text (CellNum x) = False"

definition dtype_object :: "cell list \<Rightarrow> bool" where
  "dtype_object column = list_ex is_text column"

fun cell_value :: "cell \<Rightarrow> fl" where
  "cell_value (CellNum x) = x"
| "cell_value (CellStr s) = NaN"

text \<open>Line 663: remove \<open>,\<close> (44) and the yen sign (U+00A5), then \<open>to_numeric\<close>.\<close>

fun coerce_cell :: "(pystr \<Rightarrow> fl) \<Rightarrow> cell \<Rightarrow> fl" where
  "coerce_cell to_numeric (CellStr s) = to_numeric (str_remove 0xA5 (str_remove 44 s))"
| "coerce_cell to_numeric (CellNum x) = x"

text \<open>Lines 661 to 663 seen from one cell \<open>c\<close> of a column.\<close>

definition coerce :: "(pystr \<Rightarrow> fl) \<Rightarrow> cell list \<Rightarrow> cell \<Rightarrow> fl" where
  "coerce to_numeric column c =
     (if dtype_object column then coerce_cell to_numeric c else cell_value c)"

definition coerce_row :: "(pystr \<Rightarrow> fl) \<Rightarrow> raw_row list \<Rightarrow> raw_row \<Rightarrow> nrow" where
  "coerce_row to_numeric df r =
     \<lparr> Keyword = raw_Keyword r, MatchType = raw_MatchType r,
       Impressions = coerce to_numeric (map raw_Impressions df) (raw_Impressions r),
       Clicks = coerce to_numeric (map raw_Clicks df) (raw_Clicks r),
       Cost = coerce to_numeric (map raw_Cost df) (raw_Cost r),
       Conversions = coerce to_numeric (map raw_Conversions df) (raw_Conversions r) \<rparr>"

text \<open>Lines 666 to 670.\<close>

definition add_metrics :: "nrow \<Rightarrow> row" where
  "add_metrics n =
     \<lparr> Keyword = Keyword n, MatchType = MatchType n,
       Impressions = Impressions n, Clicks = Clicks n,
       Cost = Cost n, Conversions = Conversions n,
       CTR = fround 2 (fmul (fdiv (Clicks n) (Impressions n)) (Fin 100)),
       CVR = fround 2 (fmul (fdiv (Conversions n) (Clicks n)) (Fin 100)),
       CPC = fround 0 (fdiv (Cost n) (Clicks n)),
       CPA = fround 0 (fdiv (Cost n) (Conversions n)),
       CPM = fround 0 (fmul (fdiv (Cost n) (Impressions n)) (Fin 1000)) \<rparr>"

text \<open>Line 673: the replacement runs over every column of the frame.\<close>

definition replace_inf_row :: "row \<Rightarrow> row" where
  "replace_inf_row r =
     \<lparr> Keyword = Keyword r, MatchType = MatchType r,
       Impressions = replace_inf (Impressions r), Clicks = replace_inf (Clicks r),
       Cost = replace_inf (Cost r), Conversions = replace_inf (Conversions r),
       CTR = replace_inf (CTR r), CVR = replace_inf (CVR r), CPC = replace_inf (CPC r),
       CPA = replace_inf (CPA r), CPM = replace_inf (CPM r) \<rparr>"

definition derived :: "nrow \<Rightarrow> row" where
  "derived n = replace_inf_row (add_metrics n)"

definition derive_row :: "(pystr \<Rightarrow> fl) \<Rightarrow> raw_row list \<Rightarrow> raw_row \<Rightarrow> row" where
  "derive_row to_numeric df r = derived (coerce_row to_numeric df r)"

definition derive_metrics :: "(pystr \<Rightarrow> fl) \<Rightarrow> raw_row list \<Rightarrow> row list" where
  "derive_metrics to_numeric df = map (derive_row to_numeric df) df"

text \<open>
  A reader of plain decimal literals (an optional minus sign, digits, an optional
  fraction), NaN on anything else. It stands for \<open>to_numeric\<close> in the examples; the
  theorems hold for every \<open>to_numeric\<close>.
\<close>

definition parse_digits :: "pystr \<Rightarrow> nat option" where
  "parse_digits s =
     (if s = [] \<or> \<not> list_all (\<lambda>c. 48 \<le> c \<and> c \<le> 57) s then None
      else Some (foldl (\<lambda>a c. 10 * a + (c - 48)) 0 s))"

definition parse_unsigned :: "pystr \<Rightarrow> rat option" where
  "parse_unsigned s =
     (case dropWhile (\<lambda>c. c \<noteq> 46) s of
        [] \<Rightarrow> map_option of_nat (parse_digits s)
      | dot # fraction \<Rightarrow>
          (case (parse_digits (takeWhile (\<lambda>c. c \<noteq> 46) s), parse_digits fraction) of
             (Some a, Some b) \<Rightarrow> Some (of_nat a + of_nat b / 10 ^ length fraction)
           | _ \<Rightarrow> None))"

definition decimal_literal :: "pystr \<Rightarrow> fl" where
  "decimal_literal s =
     (case s of
        [] \<Rightarrow> NaN
      | c # t \<Rightarrow>
          if c = 45 then (case parse_unsigned t of Some v \<Rightarrow> Fin (- v) | None \<Rightarrow> NaN)
          else (case parse_unsigned s of Some v \<Rightarrow> Fin v | None \<Rightarrow> NaN))"

text \<open>Example inputs.\<close>

definition zero_click_row :: nrow where
  "zero_click_row =
     \<lparr> Keyword = KStr (ascii ''kw''), MatchType = None, Impressions = Fin 1000,
       Clicks = Fin 0, Cost = Fin 0, Conversions = Fin 0 \<rparr>"

definition negative_cost_sheet :: "raw_row list" where
  "negative_cost_sheet =
     [\<lparr> raw_Keyword = KStr (ascii ''kw''), raw_MatchType = None,
        raw_Impressions = CellNum (Fin 1000), raw_Clicks = CellNum (Fin 10),
        raw_Cost = CellStr (ascii ''-5''), raw_Conversions = CellStr (ascii ''n/a'') \<rparr>]"

section \<open>Cost-Priority Selector\<close>

text \<open>
  Line 772: \<open>sort_values('Cost', ascending=False)\<close>, NaN last. Rows of equal cost keep
  their order here (pandas promises no order among them; nothing below depends on it).
\<close>

definition cost_before :: "fl \<Rightarrow> fl \<Rightarrow> bool" where
  "cost_before a b = (a \<noteq> NaN \<and> (b = NaN \<or> (fle b a \<and> a \<noteq> b)))"

fun insert_desc :: "row \<Rightarrow> row list \<Rightarrow> row list" where
  "insert_desc x [] = [x]"
| "insert_desc x (y # ys) =
     (if cost_before (Cost y) (Cost x) then y # insert_desc x ys else x # y # ys)"

definition sort_values_cost_desc :: "row list \<Rightarrow> row list" where
  "sort_values_cost_desc df = foldr insert_desc df []"

text \<open>Lines 773 to 778.\<close>

definition total_cost :: "row list \<Rightarrow> fl" where
  "total_cost df = nansum (map Cost (sort_values_cost_desc df))"

definition cumulative_cost_percent :: "row list \<Rightarrow> fl list" where
  "cumulative_cost_percent df =
     map (\<lambda>c. fmul (fdiv c (total_cost df)) (Fin 100))
       (cumsum (map Cost (sort_values_cost_desc df)))"

definition selection_mask :: "fl \<Rightarrow> row list \<Rightarrow> bool list" where
  "selection_mask cost_threshold df =
     map (\<lambda>p. fle p cost_threshold) (cumulative_cost_percent df)"

definition high_cost_df :: "fl \<Rightarrow> row list \<Rightarrow> row list" where
  "high_cost_df cost_threshold df =
     map fst (filter snd (zip (sort_values_cost_desc df) (selection_mask cost_threshold df)))"

text \<open>Lines 792 to 795.\<close>

definition unique_keywords_of :: "row list \<Rightarrow> keyword list" where
  "unique_keywords_of high = filter valid_keyword (unique (map Keyword high))"

text \<open>The three rows of the example: costs 100, 50 and 10, keywords 1, 2 and 3.\<close>

definition example_row :: "int \<Rightarrow> rat \<Rightarrow> row" where
  "example_row k c =
     \<lparr> Keyword = KInt k, MatchType = None, Impressions = Fin 1000, Clicks = Fin 10,
       Cost = Fin c, Conversions = Fin 1, CTR = Fin 1, CVR = Fin 10, CPC = Fin (c / 10),
       CPA = Fin c, CPM = Fin c \<rparr>"

definition example_costs :: "row list" where
  "example_costs = [example_row 1 100, example_row 2 50, example_row 3 10]"

section \<open>Category Aggregator\<close>

record crow = row +
  AxisCategory :: pystr
  CombinationCategory :: pystr

text \<open>
  \<open>groupby(key)\<close>: rows whose key is missing are dropped, the groups come sorted by key.
\<close>

definition group_keys :: "('r \<Rightarrow> 'k option) \<Rightarrow> 'r list \<Rightarrow> ('k :: linorder) list" where
  "group_keys key df = sort (remdups (List.map_filter key df))"

text \<open>The label the code gives the count column: \<open>Keyword\<close> renamed (six code points,
  "number of keywords").\<close>

definition keyword_count_label :: pystr where
  "keyword_count_label = [0x30AD, 0x30FC, 0x30EF, 0x30FC, 0x30C9, 0x6570]"

text \<open>
  One rollup (lines 953 to 968, and the four blocks after it, which differ in the key
  only): \<open>agg\<close> counts the non-missing keywords and sums the four base columns, then
  four ratio columns are assigned from those sums, then the count column is renamed.
  A row of the result is its key and its labelled columns in order.
\<close>

definition stats_of_group :: "crow list \<Rightarrow> (pystr \<times> fl) list" where
  "stats_of_group g =
     (let count = Fin (of_nat (length (filter (\<lambda>r. Keyword r \<noteq> KNone) g)));
          impressions = nansum (map Impressions g);
          clicks = nansum (map Clicks g);
          cost = nansum (map Cost g);
          conversions = nansum (map Conversions g)
      in [(keyword_count_label, count),
          (ascii ''Impressions'', impressions),
          (ascii ''Clicks'', clicks),
          (ascii ''Cost'', cost),
          (ascii ''Conversions'', conversions),
          (ascii ''CTR'', fround 2 (fmul (fdiv clicks impressions) (Fin 100))),
          (ascii ''CVR'', fround 2 (fmul (fdiv conversions clicks) (Fin 100))),
          (ascii ''CPC'', fround 0 (fdiv cost clicks)),
          (ascii ''CPA'', fround 0 (fdiv cost conversions))])"

definition group_rows :: "(crow \<Rightarrow> 'k option) \<Rightarrow> crow list \<Rightarrow> 'k \<Rightarrow> crow list" where
  "group_rows key df k = filter (\<lambda>r. key r = Some k) df"

definition category_stats ::
  "(crow \<Rightarrow> 'k option) \<Rightarrow> crow list \<Rightarrow> (('k :: linorder) \<times> (pystr \<times> fl) list) list" where
  "category_stats key df =
     map (\<lambda>k. (k, stats_of_group (group_rows key df k))) (group_keys key df)"

definition axis_key :: "crow \<Rightarrow> pystr option" where
  "axis_key r = Some (AxisCategory r)"

definition combination_key :: "crow \<Rightarrow> pystr option" where
  "combination_key r = Some (CombinationCategory r)"

definition cross_key :: "crow \<Rightarrow> (pystr \<times> pystr) option" where
  "cross_key r = Some (AxisCategory r, CombinationCategory r)"

definition match_type_key :: "crow \<Rightarrow> pystr option" where
  "match_type_key r = MatchType r"

definition axis_match_type_key :: "crow \<Rightarrow> (pystr \<times> pystr) option" where
  "axis_match_type_key r = map_option (Pair (AxisCategory r)) (MatchType r)"

definition axis_stats :: "crow list \<Rightarrow> (pystr \<times> (pystr \<times> fl) list) list" where
  "axis_stats df = category_stats axis_key df"

definition combination_stats :: "crow list \<Rightarrow> (pystr \<times> (pystr \<times> fl) list) list" where
  "combination_stats df = category_stats combination_key df"

definition cross_stats :: "crow list \<Rightarrow> ((pystr \<times> pystr) \<times> (pystr \<times> fl) list) list" where
  "cross_stats df = category_stats cross_key df"

definition match_type_stats :: "crow list \<Rightarrow> (pystr \<times> (pystr \<times> fl) list) list" where
  "match_type_stats df = category_stats match_type_key df"

definition axis_match_type_stats ::
  "crow list \<Rightarrow> ((pystr \<times> pystr) \<times> (pystr \<times> fl) list) list" where
  "axis_match_type_stats df = category_stats axis_match_type_key df"

text \<open>What a rollup row holds for the group \<open>g\<close> it was made from: nine columns, the
  four ratios computed from the sums over \<open>g\<close>.\<close>

definition ratios_from_sums :: "crow list \<Rightarrow> (pystr \<times> fl) list \<Rightarrow> bool" where
  "ratios_from_sums g cols =
     (map fst cols =
        [keyword_count_label, ascii ''Impressions'', ascii ''Clicks'', ascii ''Cost'',
         ascii ''Conversions'', ascii ''CTR'', ascii ''CVR'', ascii ''CPC'', ascii ''CPA'']
      \<and> map_of cols keyword_count_label
          = Some (Fin (of_nat (length (filter (\<lambda>r. Keyword r \<noteq> KNone) g))))
      \<and> map_of cols (ascii ''Impressions'') = Some (nansum (map Impressions g))
      \<and> map_of cols (ascii ''Clicks'') = Some (nansum (map Clicks g))
      \<and> map_of cols (ascii ''Cost'') = Some (nansum (map Cost g))
      \<and> map_of cols (ascii ''Conversions'') = Some (nansum (map Conversions g))
      \<and> map_of cols (ascii ''CTR'')
          = Some (fround 2 (fmul (fdiv (nansum (map Clicks g)) (nansum (map Impressions g)))
                             (Fin 100)))
      \<and> map_of cols (ascii ''CVR'')
          = Some (fround 2 (fmul (fdiv (nansum (map Conversions g)) (nansum (map Clicks g)))
                             (Fin 100)))
      \<and> map_of cols (ascii ''CPC'')
          = Some (fround 0 (fdiv (nansum (map Cost g)) (nansum (map Clicks g))))
      \<and> map_of cols (ascii ''CPA'')
          = Some (fround 0 (fdiv (nansum (map Cost g)) (nansum (map Conversions g))))
      \<and> map_of cols (ascii ''CPM'') = None)"

definition example_crow :: "pystr \<Rightarrow> rat \<Rightarrow> rat \<Rightarrow> crow" where
  "example_crow axis imp clk =
     \<lparr> Keyword = KStr (ascii ''kw''), MatchType = Some (ascii ''exact''),
       Impressions = Fin imp, Clicks = Fin clk, Cost = Fin 100, Conversions = Fin 1,
       CTR = fround 2 (Fin (clk / imp * 100)), CVR = NaN, CPC = NaN, CPA = NaN, CPM = NaN,
       AxisCategory = axis, CombinationCategory = ascii ''x'' \<rparr>"

section \<open>Field Resolver\<close>

text \<open>
  \<open>STANDARD_FIELDS\<close>: each canonical field with its aliases, in the order of the
  dictionary literal. The table of \<open>app.py\<close> and the shorter one of
  \<open>column_mapper.py\<close>. Japanese aliases are written as their code points.
\<close>

type_synonym fields_table = "(pystr \<times> pystr list) list"

definition STANDARD_FIELDS :: fields_table where
  "STANDARD_FIELDS =
     [(ascii ''Keyword'',
        [[0x30AD, 0x30FC, 0x30EF, 0x30FC, 0x30C9], ascii ''keywords'',
         ascii ''search term'', [0x691C, 0x7D22, 0x8A9E, 0x53E5], ascii ''query'',
         ascii ''kw'',
         [0x30AD, 0x30FC, 0x30EF, 0x30FC, 0x30C9, 0x30C6, 0x30AD, 0x30B9, 0x30C8]]),
      (ascii ''MatchType'',
        [[0x30DE, 0x30C3, 0x30C1, 0x30BF, 0x30A4, 0x30D7], ascii ''match type'',
         ascii ''match'', ascii ''matching'', [0x30BF, 0x30A4, 0x30D7],
         [0x4E00, 0x81F4, 0x30BF, 0x30A4, 0x30D7],
         [0x4E00, 0x81F4, 0x30AD, 0x30FC, 0x30EF, 0x30FC, 0x30C9],
         [0x30DE, 0x30C3, 0x30C1, 0x30F3, 0x30B0, 0x30BF, 0x30A4, 0x30D7]]),
      (ascii ''Impressions'',
        [ascii ''imp'', ascii ''imps'', ascii ''impression'',
         [0x30A4, 0x30F3, 0x30D7, 0x30EC, 0x30C3, 0x30B7, 0x30E7, 0x30F3],
         [0x8868, 0x793A, 0x56DE, 0x6570], [0x8868, 0x793A, 0x6570],
         [0x9732, 0x51FA, 0x6570],
         [0x30A4, 0x30F3, 0x30D7, 0x30EC, 0x30C3, 0x30B7, 0x30E7, 0x30F3, 0x6570]]),
      (ascii ''Clicks'',
        [ascii ''click'', [0x30AF, 0x30EA, 0x30C3, 0x30AF],
         [0x30AF, 0x30EA, 0x30C3, 0x30AF, 0x6570],
         [0x30AF, 0x30EA, 0x30C3, 0x30AF, 0x56DE, 0x6570], ascii ''click count'',
         ascii ''clicks'']),
      (ascii ''Cost'',
        [[0x30B3, 0x30B9, 0x30C8], ascii ''cost'', [0x8CBB, 0x7528], [0x91D1, 0x984D],
         ascii ''spend'', [0x652F, 0x51FA], [0x6D88, 0x5316, 0x91D1, 0x984D],
         [0x6D88, 0x5316, 0x984D]]),
      (ascii ''Conversions'',
        [ascii ''conversion'', ascii ''conv'',
         [0x30B3, 0x30F3, 0x30D0, 0x30FC, 0x30B8, 0x30E7, 0x30F3], [0x6210, 0x7D04],
         ascii ''cv'', ascii ''CVs'', [0x7372, 0x5F97, 0x6570],
         [0x30B3, 0x30F3, 0x30D0, 0x30FC, 0x30B8, 0x30E7, 0x30F3, 0x6570],
         [0x30B3, 0x30F3, 0x30D0, 0x6570], ascii ''GACV'']),
      (ascii ''CampaignName'',
        [[0x30AD, 0x30E3, 0x30F3, 0x30DA, 0x30FC, 0x30F3, 0x540D], ascii ''campaign'',
         [0x30AD, 0x30E3, 0x30F3, 0x30DA, 0x30FC, 0x30F3], ascii ''campaign name'',
         [0x30AD, 0x30E3, 0x30F3, 0x30DA, 0x30FC, 0x30F3, 0x30CD, 0x30FC, 0x30E0],
         ascii ''cp'', ascii ''campname'']),
      (ascii ''AdGroupName'',
        [[0x5E83, 0x544A, 0x30B0, 0x30EB, 0x30FC, 0x30D7, 0x540D], ascii ''adgroup'',
         ascii ''ad group'', [0x5E83, 0x544A, 0x30B0, 0x30EB, 0x30FC, 0x30D7],
         ascii ''group name'', [0x30B0, 0x30EB, 0x30FC, 0x30D7, 0x540D],
         ascii ''adgroupname'', ascii ''ag''])]"

definition STANDARD_FIELDS_mapper :: fields_table where
  "STANDARD_FIELDS_mapper =
     [(ascii ''Keyword'',
        [[0x30AD, 0x30FC, 0x30EF, 0x30FC, 0x30C9], ascii ''keywords'',
         ascii ''search term'', [0x691C, 0x7D22, 0x8A9E, 0x53E5], ascii ''query'']),
      (ascii ''MatchType'',
        [[0x30DE, 0x30C3, 0x30C1, 0x30BF, 0x30A4, 0x30D7], ascii ''match type'',
         ascii ''match'', ascii ''matching'', [0x30BF, 0x30A4, 0x30D7],
         [0x4E00, 0x81F4, 0x30BF, 0x30A4, 0x30D7]]),
      (ascii ''Impressions'',
        [ascii ''imp'', ascii ''imps'', ascii ''impression'',
         [0x30A4, 0x30F3, 0x30D7, 0x30EC, 0x30C3, 0x30B7, 0x30E7, 0x30F3],
         [0x8868, 0x793A, 0x56DE, 0x6570], [0x8868, 0x793A, 0x6570],
         [0x9732, 0x51FA, 0x6570]]),
      (ascii ''Clicks'',
        [ascii ''click'', [0x30AF, 0x30EA, 0x30C3, 0x30AF],
         [0x30AF, 0x30EA, 0x30C3, 0x30AF, 0x6570],
         [0x30AF, 0x30EA, 0x30C3, 0x30AF, 0x56DE, 0x6570], ascii ''click count'']),
      (ascii ''Cost'',
        [[0x30B3, 0x30B9, 0x30C8], ascii ''cost'', [0x8CBB, 0x7528], [0x91D1, 0x984D],
         ascii ''spend'', [0x652F, 0x51FA]]),
      (ascii ''Conversions'',
        [ascii ''conversion'', ascii ''conv'',
         [0x30B3, 0x30F3, 0x30D0, 0x30FC, 0x30B8, 0x30E7, 0x30F3], [0x6210, 0x7D04],
         ascii ''cv'', ascii ''CVs'', ascii ''GACV'']),
      (ascii ''CampaignName'',
        [[0x30AD, 0x30E3, 0x30F3, 0x30DA, 0x30FC, 0x30F3, 0x540D], ascii ''campaign'',
         [0x30AD, 0x30E3, 0x30F3, 0x30DA, 0x30FC, 0x30F3], ascii ''campaign name'',
         [0x30AD, 0x30E3, 0x30F3, 0x30DA, 0x30FC, 0x30F3, 0x30CD, 0x30FC, 0x30E0]]),
      (ascii ''AdGroupName'',
        [[0x5E83, 0x544A, 0x30B0, 0x30EB, 0x30FC, 0x30D7, 0x540D], ascii ''adgroup'',
         ascii ''ad group'', [0x5E83, 0x544A, 0x30B0, 0x30EB, 0x30FC, 0x30D7],
         ascii ''group name'', [0x30B0, 0x30EB, 0x30FC, 0x30D7, 0x540D]])]"

definition unknown :: pystr where
  "unknown = ascii ''unknown''"

text \<open>
  \<open>suggest_column_mapping_with_rules\<close>, for one column label. The first loop walks the
  fields in order and tests, for each field, the exact match and then the field's
  aliases. \<open>difflib.SequenceMatcher(None, a, b).ratio()\<close> is a library function and is
  the parameter \<open>ratio\<close>.
\<close>

fun first_loop :: "fields_table \<Rightarrow> pystr \<Rightarrow> pystr option" where
  "first_loop [] col_lower = None"
| "first_loop ((std_field, alternatives) # rest) col_lower =
     (if col_lower = lower std_field then Some std_field
      else if list_ex (\<lambda>alt. str_in (lower alt) col_lower) alternatives then Some std_field
      else first_loop rest col_lower)"

text \<open>One comparison of the second loop: the state is \<open>(best_match, best_score)\<close>.\<close>

definition score_step ::
  "(pystr \<Rightarrow> pystr \<Rightarrow> rat) \<Rightarrow> pystr \<Rightarrow> pystr \<Rightarrow> pystr option \<times> rat \<Rightarrow> pystr
     \<Rightarrow> pystr option \<times> rat" where
  "score_step ratio col_lower std_field st name =
     (if snd st < ratio col_lower (lower name)
      then (Some std_field, ratio col_lower (lower name)) else st)"

definition second_loop ::
  "fields_table \<Rightarrow> (pystr \<Rightarrow> pystr \<Rightarrow> rat) \<Rightarrow> pystr \<Rightarrow> pystr option \<times> rat" where
  "second_loop tbl ratio col_lower =
     foldl (\<lambda>st (std_field, alternatives).
              foldl (score_step ratio col_lower std_field) st (std_field # alternatives))
       (None, 7 / 10) tbl"

definition suggest_label :: "fields_table \<Rightarrow> (pystr \<Rightarrow> pystr \<Rightarrow> rat) \<Rightarrow> pystr \<Rightarrow> pystr" where
  "suggest_label tbl ratio col =
     (let col_lower = lower col
      in case first_loop tbl col_lower of
           Some std_field \<Rightarrow> std_field
         | None \<Rightarrow>
             (case fst (second_loop tbl ratio col_lower) of
                Some best_match \<Rightarrow> if best_match \<noteq> [] then best_match else unknown
              | None \<Rightarrow> unknown))"

definition suggest_column_mapping_with_rules ::
  "fields_table \<Rightarrow> (pystr \<Rightarrow> pystr \<Rightarrow> rat) \<Rightarrow> pystr list \<Rightarrow> (pystr \<rightharpoonup> pystr)" where
  "suggest_column_mapping_with_rules tbl ratio df_columns =
     foldl (\<lambda>mapping col. mapping(col \<mapsto> suggest_label tbl ratio col)) Map.empty df_columns"

subsection \<open>The resolution rules as the specification words them\<close>

text \<open>
  Rule 1: the label equals a canonical field name, case ignored. Rule 2: an alias of
  the field occurs in the label, case ignored; the first such field. Rule 3: among the
  field names and aliases, in enumeration order, the first one of the best similarity,
  accepted when that similarity exceeds 0.7. Rule 4: Unknown.
\<close>

definition spec_exact :: "fields_table \<Rightarrow> pystr \<Rightarrow> pystr option" where
  "spec_exact tbl col = map_option fst (find (\<lambda>(f, aliases). lower col = lower f) tbl)"

definition spec_alias :: "fields_table \<Rightarrow> pystr \<Rightarrow> pystr option" where
  "spec_alias tbl col =
     map_option fst
       (find (\<lambda>(f, aliases). list_ex (\<lambda>a. str_in (lower a) (lower col)) aliases) tbl)"

definition candidates :: "fields_table \<Rightarrow> (pystr \<times> pystr) list" where
  "candidates tbl = concat (map (\<lambda>(f, aliases). map (Pair f) (f # aliases)) tbl)"

definition spec_fuzzy :: "fields_table \<Rightarrow> (pystr \<Rightarrow> pystr \<Rightarrow> rat) \<Rightarrow> pystr \<Rightarrow> pystr option" where
  "spec_fuzzy tbl ratio col =
     (let score = (\<lambda>c. ratio (lower col) (lower (snd c)));
          cs = candidates tbl
      in case find (\<lambda>c. list_all (\<lambda>c'. score c' \<le> score c) cs) cs of
           None \<Rightarrow> None
         | Some best \<Rightarrow> if 7 / 10 < score best then Some (fst best) else None)"

definition spec_resolve :: "fields_table \<Rightarrow> (pystr \<Rightarrow> pystr \<Rightarrow> rat) \<Rightarrow> pystr \<Rightarrow> pystr" where
  "spec_resolve tbl ratio col =
     (case spec_exact tbl col of
        Some f \<Rightarrow> f
      | None \<Rightarrow>
          (case spec_alias tbl col of
             Some f \<Rightarrow> f
           | None \<Rightarrow> (case spec_fuzzy tbl ratio col of Some f \<Rightarrow> f | None \<Rightarrow> unknown)))"

text \<open>
  Two properties of a table under which the interleaved first loop and the rules in
  priority order agree: no field name contains an alias of an earlier field, and the
  field names are non-empty and differ even when case is ignored.
\<close>

fun no_shadowing :: "fields_table \<Rightarrow> bool" where
  "no_shadowing [] = True"
| "no_shadowing ((f, aliases) # rest) =
     (list_all (\<lambda>(g, bs). \<not> list_ex (\<lambda>a. str_in (lower a) (lower g)) aliases) rest
      \<and> no_shadowing rest)"

definition well_named :: "fields_table \<Rightarrow> bool" where
  "well_named tbl = (list_all (\<lambda>(f, aliases). f \<noteq> []) tbl \<and> distinct (map (lower \<circ> fst) tbl))"

text \<open>A similarity for the examples: 1 on equal strings, 0 otherwise.\<close>

definition equal_ratio :: "pystr \<Rightarrow> pystr \<Rightarrow> rat" where
  "equal_ratio a b = (if a = b then 1 else 0)"

definition two_rows :: "crow list" where
  "two_rows = [example_crow (ascii ''a'') 10 1, example_crow (ascii ''a'') 1000 1]"

section \<open>Properties of the partition\<close>

lemma concat_chunks:
  "concat (map (\<lambda>j. take bs (drop (j * bs) ks)) [0..<k]) = take (k * bs) ks"
proof (induction k)
  case 0
  show ?case by simp
next
  case (Suc k)
  have "take (k * bs) ks @ take bs (drop (k * bs) ks) = take (k * bs + bs) ks"
    by (simp add: take_add)
  with Suc show ?case by (simp add: add.commute)
qed

lemma ceil_div_covers:
  fixes n bs :: nat
  assumes "0 < bs"
  shows "n \<le> ((n + bs - 1) div bs) * bs"
proof -
  have "n + bs - 1 = ((n + bs - 1) div bs) * bs + (n + bs - 1) mod bs"
    by simp
  moreover have "(n + bs - 1) mod bs < bs"
    using assms by simp
  ultimately show ?thesis by linarith
qed

lemma batches_of_positive_size:
  assumes "0 < bs"
  shows "concat (map (\<lambda>i. slice ks i (i + bs)) (range_step (length ks) bs)) = ks"
proof -
  have "concat (map (\<lambda>i. slice ks i (i + bs)) (range_step (length ks) bs))
      = concat (map (\<lambda>j. take bs (drop (j * bs) ks)) [0..<(length ks + bs - 1) div bs])"
    by (simp add: range_step_def slice_def comp_def)
  also have "\<dots> = take (((length ks + bs - 1) div bs) * bs) ks"
    by (rule concat_chunks)
  also have "\<dots> = ks"
    using ceil_div_covers [OF assms, of "length ks"] by simp
  finally show ?thesis .
qed

lemma batch_in_range:
  assumes "0 < bs" and "b \<in> set (map (\<lambda>i. slice ks i (i + bs)) (range_step (length ks) bs))"
  shows "length b \<le> bs \<and> b \<noteq> []"
proof -
  from assms(2) obtain j where j: "j < (length ks + bs - 1) div bs"
    and b: "b = take bs (drop (j * bs) ks)"
    by (auto simp: range_step_def slice_def)
  from j have "Suc j \<le> (length ks + bs - 1) div bs" by simp
  then have "Suc j * bs \<le> ((length ks + bs - 1) div bs) * bs"
    by (rule mult_le_mono1)
  also have "\<dots> \<le> length ks + bs - 1"
    by simp
  finally have "j * bs < length ks"
    using assms(1) by simp
  then show ?thesis
    using b assms(1) by simp
qed

lemma disjoint_in_distinct_concat:
  "distinct (concat bs) \<Longrightarrow> i < j \<Longrightarrow> j < length bs \<Longrightarrow> set (bs ! i) \<inter> set (bs ! j) = {}"
proof (induction bs arbitrary: i j)
  case Nil
  then show ?case by simp
next
  case (Cons b bs)
  from Cons.prems(2) obtain j' where j': "j = Suc j'"
    by (cases j) auto
  show ?case
  proof (cases i)
    case 0
    have "bs ! j' \<in> set bs"
      using Cons.prems(3) j' by simp
    then show ?thesis
      using Cons.prems(1) 0 j' by auto
  next
    case (Suc i')
    then show ?thesis
      using Cons.IH [of i' j'] Cons.prems j' by simp
  qed
qed

text \<open>
  C8. For a positive configured maximum, the keyword list is cut into contiguous
  batches: the batches in order concatenate to the keyword list, each batch is non-empty
  and holds at most \<open>min(max_keywords_per_batch, 100)\<close> keywords, hence at most 100, and
  when the keywords are distinct (they come from \<open>unique()\<close>) no keyword lies in two
  batches.
\<close>

theorem batches_partition:
  assumes "0 < max_keywords_per_batch"
  shows "\<exists>batches. make_batches max_keywords_per_batch unique_keywords = Inr batches
           \<and> concat batches = unique_keywords
           \<and> (\<forall>b \<in> set batches. b \<noteq> []
                 \<and> int (length b) \<le> min max_keywords_per_batch 100
                 \<and> length b \<le> 100)
           \<and> (distinct unique_keywords \<longrightarrow>
                 (\<forall>i j. i < j \<and> j < length batches
                     \<longrightarrow> set (batches ! i) \<inter> set (batches ! j) = {}))"
proof -
  define bs where "bs = nat (min max_keywords_per_batch 100)"
  define batches where
    "batches = map (\<lambda>i. slice unique_keywords i (i + bs)) (range_step (length unique_keywords) bs)"
  have pos: "0 < bs" and le: "bs \<le> 100" and bs_int: "int bs = min max_keywords_per_batch 100"
    using assms by (auto simp: bs_def)
  have mk: "make_batches max_keywords_per_batch unique_keywords = Inr batches"
    using assms by (auto simp: make_batches_def Let_def batches_def bs_def min_def)
  have cc: "concat batches = unique_keywords"
    unfolding batches_def by (rule batches_of_positive_size [OF pos])
  have sz: "\<forall>b \<in> set batches. b \<noteq> [] \<and> int (length b) \<le> min max_keywords_per_batch 100
              \<and> length b \<le> 100"
  proof
    fix b assume "b \<in> set batches"
    then have "length b \<le> bs \<and> b \<noteq> []"
      unfolding batches_def by (rule batch_in_range [OF pos])
    then show "b \<noteq> [] \<and> int (length b) \<le> min max_keywords_per_batch 100 \<and> length b \<le> 100"
      using le bs_int by linarith
  qed
  have dj: "distinct unique_keywords \<longrightarrow>
      (\<forall>i j. i < j \<and> j < length batches \<longrightarrow> set (batches ! i) \<inter> set (batches ! j) = {})"
    using cc disjoint_in_distinct_concat [of batches] by auto
  from mk cc sz dj show ?thesis by blast
qed

theorem batches_partition_witness:
  "(0::int) < 2 \<and> make_batches 2 [1, 2, 3, 4, 5 :: nat] = Inr [[1, 2], [3, 4], [5]]"
proof -
  have h: "(0::int) < 2" by simp
  from batches_partition [OF h, of "[1, 2, 3, 4, 5 :: nat]"]
  obtain batches where "make_batches 2 [1, 2, 3, 4, 5 :: nat] = Inr batches"
    by blast
  moreover have "make_batches 2 [1, 2, 3, 4, 5 :: nat] = Inr [[1, 2], [3, 4], [5]]"
    by (simp add: make_batches_def range_step_def slice_def upt_rec)
  ultimately show ?thesis using h by simp
qed

section \<open>Properties of the Metric Deriver\<close>

lemma derived_fields:
  "CTR (derived n) = replace_inf (fround 2 (fmul (fdiv (Clicks n) (Impressions n)) (Fin 100)))"
  "CVR (derived n) = replace_inf (fround 2 (fmul (fdiv (Conversions n) (Clicks n)) (Fin 100)))"
  "CPC (derived n) = replace_inf (fround 0 (fdiv (Cost n) (Clicks n)))"
  "CPA (derived n) = replace_inf (fround 0 (fdiv (Cost n) (Conversions n)))"
  "CPM (derived n) = replace_inf (fround 0 (fmul (fdiv (Cost n) (Impressions n)) (Fin 1000)))"
  "Impressions (derived n) = replace_inf (Impressions n)"
  "Clicks (derived n) = replace_inf (Clicks n)"
  "Cost (derived n) = replace_inf (Cost n)"
  "Conversions (derived n) = replace_inf (Conversions n)"
  by (simp_all add: derived_def replace_inf_row_def add_metrics_def)

lemma ratio_undefined:
  assumes "y = Fin 0 \<or> y = NaN"
  shows "replace_inf (fround d (fdiv x y)) = NaN"
    and "0 < c \<Longrightarrow> replace_inf (fround d (fmul (fdiv x y) (Fin c))) = NaN"
  using assms by (cases x; auto)+

lemma replace_inf_finite: "replace_inf x \<noteq> PInf \<and> replace_inf x \<noteq> NInf"
  by (cases x) auto

lemma replace_inf_cases: "replace_inf x = NaN \<or> (\<exists>a. replace_inf x = Fin a)"
  by (cases x) auto

lemma fdiv_nan_right: "fdiv x NaN = NaN"
  by (cases x) auto

lemma rint_zero: "rint 0 = 0"
  by (simp add: rint_def)

text \<open>
  C4. In the derived row (lines 666 to 673) a ratio whose denominator is zero or NaN is
  NaN: with Clicks zero or missing CVR and CPC are NaN, with Impressions zero or missing
  CTR and CPM are NaN, with Conversions zero or missing CPA is NaN. No derived field is
  an infinity, and with Clicks zero and Impressions positive CTR is the number 0. The
  derivation is a total function: no input raises.
\<close>

theorem undefined_on_zero_or_missing_denominator:
  "(Clicks n = Fin 0 \<or> Clicks n = NaN \<longrightarrow> CVR (derived n) = NaN \<and> CPC (derived n) = NaN)
   \<and> (Impressions n = Fin 0 \<or> Impressions n = NaN
        \<longrightarrow> CTR (derived n) = NaN \<and> CPM (derived n) = NaN)
   \<and> (Conversions n = Fin 0 \<or> Conversions n = NaN \<longrightarrow> CPA (derived n) = NaN)
   \<and> (\<forall>m \<in> {CTR (derived n), CVR (derived n), CPC (derived n), CPA (derived n),
              CPM (derived n)}. m \<noteq> PInf \<and> m \<noteq> NInf)
   \<and> (Clicks n = Fin 0 \<and> Impressions n = Fin i \<and> 0 < i \<longrightarrow> CTR (derived n) = Fin 0)"
proof -
  have a: "Clicks n = Fin 0 \<or> Clicks n = NaN \<longrightarrow> CVR (derived n) = NaN \<and> CPC (derived n) = NaN"
    by (simp add: derived_fields ratio_undefined)
  have b: "Impressions n = Fin 0 \<or> Impressions n = NaN
        \<longrightarrow> CTR (derived n) = NaN \<and> CPM (derived n) = NaN"
    by (simp add: derived_fields ratio_undefined)
  have c: "Conversions n = Fin 0 \<or> Conversions n = NaN \<longrightarrow> CPA (derived n) = NaN"
    by (simp add: derived_fields ratio_undefined)
  have d: "\<forall>m \<in> {CTR (derived n), CVR (derived n), CPC (derived n), CPA (derived n),
              CPM (derived n)}. m \<noteq> PInf \<and> m \<noteq> NInf"
    by (simp add: derived_fields replace_inf_finite)
  have e: "Clicks n = Fin 0 \<and> Impressions n = Fin i \<and> 0 < i \<longrightarrow> CTR (derived n) = Fin 0"
    by (simp add: derived_fields rint_zero)
  from a b c d e show ?thesis by blast
qed

theorem undefined_on_zero_or_missing_denominator_witness:
  "Clicks zero_click_row = Fin 0 \<and> Impressions zero_click_row = Fin 1000
   \<and> Conversions zero_click_row = Fin 0
   \<and> CVR (derived zero_click_row) = NaN \<and> CPC (derived zero_click_row) = NaN
   \<and> CPA (derived zero_click_row) = NaN \<and> CTR (derived zero_click_row) = Fin 0"
proof -
  have h: "Clicks zero_click_row = Fin 0 \<and> Impressions zero_click_row = Fin 1000
      \<and> Conversions zero_click_row = Fin 0 \<and> (0::rat) < 1000"
    by (simp add: zero_click_row_def)
  with undefined_on_zero_or_missing_denominator [of zero_click_row 1000]
  show ?thesis by blast
qed

lemma negative_cost_coerced:
  "map Cost (derive_metrics decimal_literal negative_cost_sheet) = [Fin (- 5)]"
  by (simp add: derive_metrics_def derive_row_def derived_fields coerce_row_def coerce_def
      negative_cost_sheet_def dtype_object_def decimal_literal_def parse_unsigned_def
      parse_digits_def ascii_def str_remove_def)

lemma unparseable_conversions:
  "Conversions (coerce_row decimal_literal negative_cost_sheet (hd negative_cost_sheet)) = NaN"
  by (simp add: coerce_row_def coerce_def negative_cost_sheet_def dtype_object_def
      decimal_literal_def parse_unsigned_def parse_digits_def ascii_def str_remove_def)

text \<open>
  C7 as stated fails: the text cell \<open>-5\<close> in the Cost column is coerced to the number
  -5, which is neither non-negative nor marked invalid.
\<close>

theorem negative_cost_kept_counterexample:
  "map Cost (derive_metrics decimal_literal negative_cost_sheet) = [Fin (- 5)]
   \<and> \<not> (0::rat) \<le> - 5 \<and> Fin (- 5) \<noteq> NaN"
  using negative_cost_coerced by simp

text \<open>
  C7, amended. After canonicalization each of the four numeric fields is a finite number
  (of either sign: the code has no sign check) or NaN, and a field that coercion made
  NaN makes every derived metric computed from it NaN. Coercion and derivation are total
  functions: no cell raises.
\<close>

theorem numeric_fields_finite_or_nan:
  "(\<forall>x \<in> {Impressions (derive_row to_numeric df r), Clicks (derive_row to_numeric df r),
             Cost (derive_row to_numeric df r), Conversions (derive_row to_numeric df r)}.
        x = NaN \<or> (\<exists>a. x = Fin a))
   \<and> (Impressions (coerce_row to_numeric df r) = NaN
        \<longrightarrow> CTR (derive_row to_numeric df r) = NaN \<and> CPM (derive_row to_numeric df r) = NaN)
   \<and> (Clicks (coerce_row to_numeric df r) = NaN
        \<longrightarrow> CTR (derive_row to_numeric df r) = NaN \<and> CVR (derive_row to_numeric df r) = NaN
          \<and> CPC (derive_row to_numeric df r) = NaN)
   \<and> (Cost (coerce_row to_numeric df r) = NaN
        \<longrightarrow> CPC (derive_row to_numeric df r) = NaN \<and> CPA (derive_row to_numeric df r) = NaN
          \<and> CPM (derive_row to_numeric df r) = NaN)
   \<and> (Conversions (coerce_row to_numeric df r) = NaN
        \<longrightarrow> CVR (derive_row to_numeric df r) = NaN \<and> CPA (derive_row to_numeric df r) = NaN)"
proof -
  have a: "\<forall>x \<in> {Impressions (derive_row to_numeric df r), Clicks (derive_row to_numeric df r),
             Cost (derive_row to_numeric df r), Conversions (derive_row to_numeric df r)}.
        x = NaN \<or> (\<exists>a. x = Fin a)"
    by (simp add: derive_row_def derived_fields replace_inf_cases)
  show ?thesis
    using a by (simp add: derive_row_def derived_fields fdiv_nan_right)
qed

theorem numeric_fields_finite_or_nan_witness:
  "Conversions (coerce_row decimal_literal negative_cost_sheet (hd negative_cost_sheet)) = NaN
   \<and> CVR (derive_row decimal_literal negative_cost_sheet (hd negative_cost_sheet)) = NaN
   \<and> CPA (derive_row decimal_literal negative_cost_sheet (hd negative_cost_sheet)) = NaN"
  using numeric_fields_finite_or_nan
          [of decimal_literal negative_cost_sheet "hd negative_cost_sheet"]
        unparseable_conversions
  by blast

section \<open>Properties of the Cost-Priority Selector\<close>

lemma fadd_zero_left: "x \<noteq> NaN \<Longrightarrow> fadd (Fin 0) x = x"
  by (cases x) auto

lemma hd_cumsum: "xs \<noteq> [] \<Longrightarrow> hd (cumsum xs) = hd xs"
  by (cases xs) (auto simp: cumsum_def fadd_zero_left)

lemma insert_desc_nonempty: "insert_desc x ys \<noteq> []"
  by (cases ys) auto

lemma sort_values_nonempty: "df \<noteq> [] \<Longrightarrow> sort_values_cost_desc df \<noteq> []"
  by (cases df) (auto simp: sort_values_cost_desc_def insert_desc_nonempty)

lemma example_sorted: "sort_values_cost_desc example_costs = example_costs"
  by (simp add: sort_values_cost_desc_def example_costs_def example_row_def cost_before_def)

lemma example_percent:
  "cumulative_cost_percent example_costs = [Fin (125 / 2), Fin (375 / 4), Fin 100]"
  by (simp add: cumulative_cost_percent_def total_cost_def example_sorted cumsum_def nansum_def)
     (simp add: example_costs_def example_row_def)

lemma example_select:
  "map Keyword (high_cost_df (Fin 0) example_costs) = []"
  "map Keyword (high_cost_df (Fin (125 / 2)) example_costs) = [KInt 1]"
  "map Keyword (high_cost_df (Fin 100) example_costs) = [KInt 1, KInt 2, KInt 3]"
  by (simp_all add: high_cost_df_def selection_mask_def example_percent example_sorted)
     (simp_all add: example_costs_def example_row_def)

text \<open>
  C1 as stated fails on its own example: with costs 100, 50 and 10 the threshold 0
  selects no row (the claim says row 1) and the threshold 62.5 selects row 1 only (the
  claim says rows 1 and 2), because the first row's cumulative share is 62.5 percent.
\<close>

theorem first_row_not_always_selected_counterexample:
  "map Keyword (high_cost_df (Fin 0) example_costs) = []
   \<and> map Keyword (high_cost_df (Fin (125 / 2)) example_costs) = [KInt 1]"
  using example_select by simp

text \<open>
  C1, amended. The first row of the cost-descending order is selected exactly when its
  own share of the total cost, in percent, is at most the threshold; on the costs 100,
  50 and 10 the thresholds 0, 62.5 and 100 select no row, row 1, and rows 1, 2 and 3.
\<close>

theorem first_row_selected_iff:
  "(df \<noteq> [] \<longrightarrow>
      hd (selection_mask cost_threshold df)
        = fle (fmul (fdiv (Cost (hd (sort_values_cost_desc df))) (total_cost df)) (Fin 100))
            cost_threshold)
   \<and> map Keyword (high_cost_df (Fin 0) example_costs) = []
   \<and> map Keyword (high_cost_df (Fin (125 / 2)) example_costs) = [KInt 1]
   \<and> map Keyword (high_cost_df (Fin 100) example_costs) = [KInt 1, KInt 2, KInt 3]"
proof -
  have "hd (selection_mask cost_threshold df)
        = fle (fmul (fdiv (Cost (hd (sort_values_cost_desc df))) (total_cost df)) (Fin 100))
            cost_threshold" if "df \<noteq> []"
  proof -
    from that have ne: "sort_values_cost_desc df \<noteq> []"
      by (rule sort_values_nonempty)
    then have "cumsum (map Cost (sort_values_cost_desc df)) \<noteq> []"
      by (cases "sort_values_cost_desc df") (auto simp: cumsum_def)
    then show ?thesis
      using ne by (simp add: selection_mask_def cumulative_cost_percent_def hd_map hd_cumsum)
  qed
  then show ?thesis using example_select by simp
qed

theorem first_row_selected_iff_witness:
  "example_costs \<noteq> []
   \<and> hd (selection_mask (Fin 50) example_costs) = False
   \<and> hd (selection_mask (Fin 80) example_costs) = True"
proof -
  have ne: "example_costs \<noteq> []"
    by (simp add: example_costs_def)
  have c: "Cost (hd example_costs) = Fin 100" and t: "total_cost example_costs = Fin 160"
    by (simp_all add: total_cost_def example_sorted nansum_def)
       (simp_all add: example_costs_def example_row_def)
  from first_row_selected_iff [of example_costs "Fin 50"]
       first_row_selected_iff [of example_costs "Fin 80"] ne
  show ?thesis by (simp add: example_sorted c t)
qed

section \<open>Properties of the Category Aggregator\<close>

lemma stats_of_group_ratios: "ratios_from_sums g (stats_of_group g)"
  by (simp add: ratios_from_sums_def stats_of_group_def Let_def ascii_def keyword_count_label_def)

lemma category_stats_rows:
  "\<forall>(k, cols) \<in> set (category_stats key df). ratios_from_sums (group_rows key df k) cols"
  by (auto simp: category_stats_def stats_of_group_ratios)

lemma two_rows_stats: "axis_stats two_rows = [(ascii ''a'', stats_of_group two_rows)]"
  by (simp add: axis_stats_def category_stats_def group_keys_def group_rows_def two_rows_def
      axis_key_def example_crow_def map_filter_def)

lemma rint_example: "rint (2000 / 101) = 20"
  by code_simp

lemma two_rows_ctr: "map_of (stats_of_group two_rows) (ascii ''CTR'') = Some (Fin (1 / 5))"
  by (simp add: stats_of_group_def Let_def ascii_def keyword_count_label_def two_rows_def
      example_crow_def nansum_def rint_example)

lemma two_rows_per_row_ctr: "map CTR two_rows = [Fin 10, Fin (1 / 10)]"
  by (simp add: two_rows_def example_crow_def rint_def Let_def)

text \<open>
  C2 as stated fails: a rollup has nine columns and CPM is not one of them.
\<close>

theorem rollup_has_no_cpm_counterexample:
  "map (map fst \<circ> snd) (axis_stats two_rows)
     = [[keyword_count_label, ascii ''Impressions'', ascii ''Clicks'', ascii ''Cost'',
         ascii ''Conversions'', ascii ''CTR'', ascii ''CVR'', ascii ''CPC'', ascii ''CPA'']]
   \<and> ascii ''CPM'' \<notin> set (map fst (snd (hd (axis_stats two_rows))))"
  by (simp add: two_rows_stats)
     (simp add: stats_of_group_def Let_def ascii_def keyword_count_label_def)

text \<open>
  C2, amended. Every row of each of the five rollups (axis, combination, axis and
  combination, match type, axis and match type) holds the count of keywords, the four
  summed base fields and the four ratios CTR, CVR, CPC and CPA, each ratio computed from
  the sums over the rows of the group; it has no CPM column.
\<close>

theorem rollups_recompute_four_ratios:
  "(\<forall>(k, cols) \<in> set (axis_stats df). ratios_from_sums (group_rows axis_key df k) cols)
   \<and> (\<forall>(k, cols) \<in> set (combination_stats df).
         ratios_from_sums (group_rows combination_key df k) cols)
   \<and> (\<forall>(k, cols) \<in> set (cross_stats df). ratios_from_sums (group_rows cross_key df k) cols)
   \<and> (\<forall>(k, cols) \<in> set (match_type_stats df).
         ratios_from_sums (group_rows match_type_key df k) cols)
   \<and> (\<forall>(k, cols) \<in> set (axis_match_type_stats df).
         ratios_from_sums (group_rows axis_match_type_key df k) cols)"
  unfolding axis_stats_def combination_stats_def cross_stats_def match_type_stats_def
    axis_match_type_stats_def
  by (intro conjI category_stats_rows)

text \<open>Two rows of one axis category with CTR 10 and 0.1: the rollup's CTR is 0.2, what
  the sums give (2 clicks on 1010 impressions), not the mean 5.05 of the two row values.\<close>

theorem rollups_recompute_four_ratios_witness:
  "(ascii ''a'', stats_of_group two_rows) \<in> set (axis_stats two_rows)
   \<and> ratios_from_sums (group_rows axis_key two_rows (ascii ''a'')) (stats_of_group two_rows)
   \<and> map_of (stats_of_group two_rows) (ascii ''CTR'') = Some (Fin (1 / 5))
   \<and> map CTR two_rows = [Fin 10, Fin (1 / 10)]"
proof -
  have m: "(ascii ''a'', stats_of_group two_rows) \<in> set (axis_stats two_rows)"
    by (simp add: two_rows_stats)
  with rollups_recompute_four_ratios [of two_rows]
  have "ratios_from_sums (group_rows axis_key two_rows (ascii ''a'')) (stats_of_group two_rows)"
    by blast
  with m two_rows_ctr two_rows_per_row_ctr show ?thesis by simp
qed

end
